theory Spec2Isabelle
  imports Complex_Main "HOL-Library.Log_Nat"
begin

section \<open>JavaScript values used by the scoring function\<close>

text \<open>
  \<^verbatim>\<open>src/utils/cameraScore.js\<close> works on JavaScript numbers, which are IEEE 754 binary64
  doubles. A number is modelled as not-a-number, one of the two infinities, negative zero,
  or a finite value, given by the rational it denotes. The quotient \<^verbatim>\<open>width / height\<close>,
  the difference \<^verbatim>\<open>ratio - 1.77\<close> and the decimal literals \<^verbatim>\<open>1.77\<close> and \<^verbatim>\<open>0.1\<close> are
  rounded to the nearest double, ties to even, with overflow to an infinity and gradual
  underflow to zero. Every constant the function adds to the score (1, 2, 3.5, 5, 3, 0.5) is
  a multiple of one half and the sum is at most 10, so that sum is exact in a double and
  is kept as a rational.
\<close>

datatype jsnum = NaN | PosInf | NegInf | NegZero | Fin rat

text \<open>A field of the settings object is missing (\<^verbatim>\<open>undefined\<close>), \<^verbatim>\<open>null\<close> or a number.\<close>

datatype jsval = Undefined | Null | Num jsnum

text \<open>ToBoolean: \<^verbatim>\<open>undefined\<close>, \<^verbatim>\<open>null\<close>, \<^verbatim>\<open>NaN\<close>, \<^verbatim>\<open>+0\<close> and \<^verbatim>\<open>-0\<close> are falsy.\<close>

fun truthy :: "jsval \<Rightarrow> bool" where
  "truthy Undefined = False"
| "truthy Null = False"
| "truthy (Num NaN) = False"
| "truthy (Num NegZero) = False"
| "truthy (Num (Fin q)) = (q \<noteq> 0)"
| "truthy (Num PosInf) = True"
| "truthy (Num NegInf) = True"

text \<open>The operator \<^verbatim>\<open>a || b\<close>: the left operand when it is truthy, else the right one.\<close>

definition js_or :: "jsval \<Rightarrow> jsval \<Rightarrow> jsval" where
  "js_or a b = (if truthy a then a else b)"

text \<open>ToNumber: \<^verbatim>\<open>undefined\<close> becomes \<^verbatim>\<open>NaN\<close>, \<^verbatim>\<open>null\<close> becomes \<^verbatim>\<open>+0\<close>.\<close>

fun toNumber :: "jsval \<Rightarrow> jsnum" where
  "toNumber Undefined = NaN"
| "toNumber Null = Fin 0"
| "toNumber (Num n) = n"

fun is_inf :: "jsnum \<Rightarrow> bool" where
  "is_inf PosInf = True"
| "is_inf NegInf = True"
| "is_inf _ = False"

fun is_zero :: "jsnum \<Rightarrow> bool" where
  "is_zero NegZero = True"
| "is_zero (Fin q) = (q = 0)"
| "is_zero _ = False"

text \<open>The sign bit of a number that is not \<^verbatim>\<open>NaN\<close>.\<close>

fun negative :: "jsnum \<Rightarrow> bool" where
  "negative NegInf = True"
| "negative NegZero = True"
| "negative (Fin q) = (q < 0)"
| "negative _ = False"

text \<open>The value of a finite number.\<close>

fun fin_val :: "jsnum \<Rightarrow> rat" where
  "fin_val (Fin q) = q"
| "fin_val _ = 0"

definition signed_inf :: "bool \<Rightarrow> jsnum" where
  "signed_inf neg = (if neg then NegInf else PosInf)"

definition signed_zero :: "bool \<Rightarrow> jsnum" where
  "signed_zero neg = (if neg then NegZero else Fin 0)"

subsection \<open>Rounding to a double\<close>

text \<open>The power of two with an integer exponent.\<close>

definition pow2 :: "int \<Rightarrow> rat" where
  "pow2 e = (if 0 \<le> e then 2 ^ nat e else 1 / 2 ^ nat (- e))"

text \<open>
  The binary exponent of a positive rational \<open>a\<close>: the \<open>e\<close> with \<open>2 ^ e \<le> a < 2 ^ (e + 1)\<close>.
  The bit lengths of numerator and denominator give it up to one.
\<close>

definition ilog2 :: "rat \<Rightarrow> int" where
  "ilog2 a =
     (let (p, d) = quotient_of a;
          k = bitlen p - bitlen d
      in if pow2 k \<le> a then k else k - 1)"

text \<open>The nearest integer, the even one of two that are equally near.\<close>

definition round_half_even :: "rat \<Rightarrow> int" where
  "round_half_even m =
     (let f = \<lfloor>m\<rfloor>; r = m - of_int f
      in if r < 1 / 2 then f
         else if 1 / 2 < r then f + 1
         else if even f then f else f + 1)"

text \<open>
  The double nearest to a rational. A double has 53 significant bits and a binary
  exponent between \<open>-1022\<close> and \<open>1023\<close>; below \<open>2 ^ -1022\<close> the spacing stays
  \<open>2 ^ -1074\<close>. With \<open>e\<close> the exponent and \<open>n\<close> the magnitude in units of the spacing
  \<open>2 ^ (e - 52)\<close>, rounded, the result is an infinity when the magnitude is \<open>2 ^ 1024\<close> or
  more, or rounds up to it, and a zero when \<open>n\<close> is 0, both with the sign of the rational.
\<close>

definition round_double :: "rat \<Rightarrow> jsnum" where
  "round_double q =
     (if q = 0 then Fin 0
      else if 1023 < ilog2 \<bar>q\<bar> then signed_inf (q < 0)
      else (let e = max (ilog2 \<bar>q\<bar>) (- 1022);
                ulp = pow2 (e - 52);
                n = round_half_even (\<bar>q\<bar> / ulp)
            in if e = 1023 \<and> 2 ^ 53 \<le> n then signed_inf (q < 0)
               else if n = 0 then signed_zero (q < 0)
               else Fin (if q < 0 then - (of_int n * ulp) else of_int n * ulp)))"

subsection \<open>Operators\<close>

text \<open>
  Number division. A quotient with a \<^verbatim>\<open>NaN\<close> operand, of two infinities or of two zeros
  is \<^verbatim>\<open>NaN\<close>; a nonzero number over a zero is an infinity; the sign is the exclusive or
  of the operands' signs. The quotient of two finite nonzero numbers is rounded.
\<close>

definition num_div :: "jsnum \<Rightarrow> jsnum \<Rightarrow> jsnum" where
  "num_div a b =
     (if a = NaN \<or> b = NaN then NaN
      else if is_inf a then (if is_inf b then NaN else signed_inf (negative a \<noteq> negative b))
      else if is_inf b then signed_zero (negative a \<noteq> negative b)
      else if is_zero b then (if is_zero a then NaN else signed_inf (negative a \<noteq> negative b))
      else if is_zero a then signed_zero (negative a \<noteq> negative b)
      else round_double (fin_val a / fin_val b))"

text \<open>
  Number subtraction. The difference of two equal infinities is \<^verbatim>\<open>NaN\<close>; of the
  differences that are zero, only \<^verbatim>\<open>-0 - +0\<close> is \<^verbatim>\<open>-0\<close>; the difference of two finite
  numbers is rounded.
\<close>

definition num_sub :: "jsnum \<Rightarrow> jsnum \<Rightarrow> jsnum" where
  "num_sub a b =
     (if a = NaN \<or> b = NaN then NaN
      else if is_inf a then (if a = b then NaN else a)
      else if is_inf b then signed_inf (b = PosInf)
      else if a = NegZero \<and> b = Fin 0 then NegZero
      else round_double (fin_val a - fin_val b))"

text \<open>\<^verbatim>\<open>Math.abs\<close>.\<close>

fun num_abs :: "jsnum \<Rightarrow> jsnum" where
  "num_abs NaN = NaN"
| "num_abs PosInf = PosInf"
| "num_abs NegInf = PosInf"
| "num_abs NegZero = Fin 0"
| "num_abs (Fin q) = Fin \<bar>q\<bar>"

text \<open>
  The relational operators on numbers: every comparison with \<^verbatim>\<open>NaN\<close> is false, the
  two zeros are equal.
\<close>

fun num_lt :: "jsnum \<Rightarrow> jsnum \<Rightarrow> bool" where
  "num_lt NaN _ = False"
| "num_lt _ NaN = False"
| "num_lt PosInf _ = False"
| "num_lt _ PosInf = True"
| "num_lt _ NegInf = False"
| "num_lt NegInf _ = True"
| "num_lt a b = (fin_val a < fin_val b)"

definition num_ge :: "jsnum \<Rightarrow> jsnum \<Rightarrow> bool" where
  "num_ge a b = (a \<noteq> NaN \<and> b \<noteq> NaN \<and> \<not> num_lt a b)"

text \<open>The operators on values convert their operands with ToNumber first.\<close>

definition js_ge :: "jsval \<Rightarrow> jsval \<Rightarrow> bool" where
  "js_ge a b = num_ge (toNumber a) (toNumber b)"

definition js_lt :: "jsval \<Rightarrow> jsval \<Rightarrow> bool" where
  "js_lt a b = num_lt (toNumber a) (toNumber b)"

definition js_div :: "jsval \<Rightarrow> jsval \<Rightarrow> jsval" where
  "js_div a b = Num (num_div (toNumber a) (toNumber b))"

definition js_sub :: "jsval \<Rightarrow> jsval \<Rightarrow> jsval" where
  "js_sub a b = Num (num_sub (toNumber a) (toNumber b))"

definition Math_abs :: "jsval \<Rightarrow> jsval" where
  "Math_abs a = Num (num_abs (toNumber a))"

text \<open>A number that a double holds exactly, such as the integer literals of the source.\<close>

abbreviation lit :: "rat \<Rightarrow> jsval" where
  "lit q \<equiv> Num (Fin q)"

text \<open>A decimal literal such as \<^verbatim>\<open>1.77\<close>: the double nearest to the decimal fraction.\<close>

definition literal :: "rat \<Rightarrow> jsval" where
  "literal q = Num (round_double q)"

subsection \<open>\<^verbatim>\<open>Number.prototype.toFixed\<close> on a finite number\<close>

definition digit_char :: "nat \<Rightarrow> char" where
  "digit_char d = ''0123456789'' ! d"

fun decimal :: "nat \<Rightarrow> string" where
  "decimal n = (if n < 10 then [digit_char n] else decimal (n div 10) @ [digit_char (n mod 10)])"

declare decimal.simps [simp del]

text \<open>
  \<^verbatim>\<open>x.toFixed(f)\<close>: a minus sign for a negative \<^verbatim>\<open>x\<close>; then the integer \<open>n\<close> for which
  \<open>n / 10 ^ f\<close> is nearest to the absolute value (the larger one on a tie), written in
  decimal, padded with zeros to \<open>f + 1\<close> digits, with a point before the last \<open>f\<close> digits.
\<close>

definition toFixed :: "nat \<Rightarrow> rat \<Rightarrow> string" where
  "toFixed f x =
     (let s = (if x < 0 then ''-'' else '''');
          n = nat \<lfloor>\<bar>x\<bar> * 10 ^ f + 1 / 2\<rfloor>;
          m = decimal n
      in if f = 0 then s @ m
         else (let m = replicate (f + 1 - length m) (CHR ''0'') @ m;
                   k = length m
               in s @ take (k - f) m @ ''.'' @ drop (k - f) m))"

section \<open>The scoring function\<close>

text \<open>The settings object, destructured at line 11 of \<^verbatim>\<open>cameraScore.js\<close>.\<close>

record settings =
  width :: jsval
  height :: jsval
  frameRate :: jsval
  aspectRatio :: jsval

text \<open>
  The returned object. Its \<^verbatim>\<open>metrics\<close> member repeats the inputs as text and takes no
  part in the score, the label or the details; it is left out.
\<close>

record result =
  score :: string
  label :: string
  details :: "string list"

text \<open>The two local variables \<^verbatim>\<open>score\<close> and \<^verbatim>\<open>details\<close> that the function updates.\<close>

type_synonym acc = "rat \<times> string list"

text \<open>Line 18: \<^verbatim>\<open>const resolution = height || 0\<close>.\<close>

definition resolution_of :: "settings \<Rightarrow> jsval" where
  "resolution_of s = js_or (height s) (lit 0)"

text \<open>Line 37: \<^verbatim>\<open>const fps = frameRate || 30\<close>.\<close>

definition fps_of :: "settings \<Rightarrow> jsval" where
  "fps_of s = js_or (frameRate s) (lit 30)"

text \<open>Line 53: \<^verbatim>\<open>const ratio = aspectRatio || (width / height) || 1.77\<close>.\<close>

definition ratio_of :: "settings \<Rightarrow> jsval" where
  "ratio_of s = js_or (js_or (aspectRatio s) (js_div (width s) (height s))) (literal (177 / 100))"

text \<open>Lines 19 to 31.\<close>

definition resolutionStep :: "jsval \<Rightarrow> acc \<Rightarrow> acc" where
  "resolutionStep resolution = (\<lambda>(score, details).
     if js_ge resolution (lit 1080) then (score + 5, details @ [''High Definition (1080p+)''])
     else if js_ge resolution (lit 720) then (score + 7 / 2, details @ [''Standard HD (720p)''])
     else if js_ge resolution (lit 480) then (score + 2, details @ [''Standard Definition (480p)''])
     else (score + 1, details @ [''Low Resolution'']))"

text \<open>Lines 38 to 47.\<close>

definition frameRateStep :: "jsval \<Rightarrow> acc \<Rightarrow> acc" where
  "frameRateStep fps = (\<lambda>(score, details).
     if js_ge fps (lit 58) then (score + 3, details @ [''Smooth Motion (60fps)''])
     else if js_ge fps (lit 28) then (score + 2, details @ [''Standard Motion (30fps)''])
     else (score + 1, details @ [''Low Frame Rate'']))"

text \<open>Lines 54 to 60.\<close>

definition ratioStep :: "jsval \<Rightarrow> acc \<Rightarrow> acc" where
  "ratioStep ratio = (\<lambda>(score, details).
     if js_lt (Math_abs (js_sub ratio (literal (177 / 100)))) (literal (1 / 10))
     then (score + 1, details @ [''Widescreen (16:9)''])
     else (score + 1 / 2, details @ [''Standard Aspect Ratio'']))"

text \<open>Lines 63 to 66.\<close>

definition bonusStep :: "jsval \<Rightarrow> jsval \<Rightarrow> acc \<Rightarrow> acc" where
  "bonusStep resolution fps = (\<lambda>(score, details).
     if js_ge resolution (lit 1080) \<and> js_ge fps (lit 28)
     then (score + 1, details @ [''Premium Quality Bonus''])
     else (score, details))"

text \<open>The variables after line 60, before the bonus is considered.\<close>

definition beforeBonus :: "settings \<Rightarrow> acc" where
  "beforeBonus s =
     ratioStep (ratio_of s) (frameRateStep (fps_of s) (resolutionStep (resolution_of s) (0, [])))"

text \<open>The variables after line 66, before the score is capped.\<close>

definition beforeCap :: "settings \<Rightarrow> acc" where
  "beforeCap s = bonusStep (resolution_of s) (fps_of s) (beforeBonus s)"

text \<open>Line 69: \<^verbatim>\<open>score = Math.min(10, score)\<close>.\<close>

definition capScore :: "rat \<Rightarrow> rat" where
  "capScore sc = min 10 sc"

text \<open>Line 71: \<^verbatim>\<open>score = Math.max(1, score)\<close>.\<close>

definition floorScore :: "rat \<Rightarrow> rat" where
  "floorScore sc = max 1 sc"

text \<open>The number in \<^verbatim>\<open>score\<close> after line 71.\<close>

definition finalScore :: "settings \<Rightarrow> rat" where
  "finalScore s = floorScore (capScore (fst (beforeCap s)))"

text \<open>Lines 74 to 78.\<close>

definition labelOf :: "rat \<Rightarrow> string" where
  "labelOf sc =
     (if sc \<ge> 9 then ''Excellent''
      else if sc \<ge> 7 then ''Good''
      else if sc \<ge> 5 then ''Average''
      else if sc \<ge> 3 then ''Fair''
      else ''Poor'')"

definition calculateCameraScore :: "settings \<Rightarrow> result" where
  "calculateCameraScore s =
     (let (sc, details) = beforeCap s;
          sc = capScore sc;
          sc = floorScore sc
      in \<lparr>score = toFixed 1 sc, label = labelOf sc, details = details\<rparr>)"

section \<open>The parts of the score named by the specification\<close>

text \<open>
  The specification describes the score as a sum of a resolution component, a frame-rate
  component, an aspect-ratio component and a bonus, each chosen by thresholds. The
  definitions below follow that description; the theorems relate them to the function.
\<close>

text \<open>1, 2, 3.5 or 5, by comparing the height against 480, 720 and 1080.\<close>

definition resolutionComponent :: "jsval \<Rightarrow> rat" where
  "resolutionComponent h =
     (if js_ge h (lit 1080) then 5
      else if js_ge h (lit 720) then 7 / 2
      else if js_ge h (lit 480) then 2
      else 1)"

definition resolutionEntry :: "jsval \<Rightarrow> string" where
  "resolutionEntry h =
     (if js_ge h (lit 1080) then ''High Definition (1080p+)''
      else if js_ge h (lit 720) then ''Standard HD (720p)''
      else if js_ge h (lit 480) then ''Standard Definition (480p)''
      else ''Low Resolution'')"

text \<open>1, 2 or 3, by comparing the frame rate against 28 and 58.\<close>

definition frameRateComponent :: "jsval \<Rightarrow> rat" where
  "frameRateComponent f =
     (if js_ge f (lit 58) then 3 else if js_ge f (lit 28) then 2 else 1)"

definition frameRateEntry :: "jsval \<Rightarrow> string" where
  "frameRateEntry f =
     (if js_ge f (lit 58) then ''Smooth Motion (60fps)''
      else if js_ge f (lit 28) then ''Standard Motion (30fps)''
      else ''Low Frame Rate'')"

text \<open>The test \<open>|ratio - 1.77| < 0.1\<close>.\<close>

definition widescreen :: "jsval \<Rightarrow> bool" where
  "widescreen r = js_lt (Math_abs (js_sub r (literal (177 / 100)))) (literal (1 / 10))"

definition aspectComponent :: "jsval \<Rightarrow> rat" where
  "aspectComponent r = (if widescreen r then 1 else 1 / 2)"

definition aspectEntry :: "jsval \<Rightarrow> string" where
  "aspectEntry r = (if widescreen r then ''Widescreen (16:9)'' else ''Standard Aspect Ratio'')"

text \<open>The condition of the bonus: height at least 1080 and frame rate at least 28.\<close>

definition premium :: "jsval \<Rightarrow> jsval \<Rightarrow> bool" where
  "premium h f = (js_ge h (lit 1080) \<and> js_ge f (lit 28))"

text \<open>
  The effective frame rate: the reported one, or the default of 30 when none is reported.
  The specification counts a field as not reported when it is falsy: absent, \<^verbatim>\<open>null\<close>,
  \<^verbatim>\<open>NaN\<close> or zero (its section 8 gives a frame rate of 0 the default).
\<close>

definition effectiveFrameRate :: "jsval \<Rightarrow> jsval" where
  "effectiveFrameRate fr = (if truthy fr then fr else lit 30)"

text \<open>
  The ratio: the aspect ratio, else the quotient of width and height, else 1.77, each
  taken when the one before it is not reported in the sense above.
\<close>

definition defaultedRatio :: "settings \<Rightarrow> jsval" where
  "defaultedRatio s =
     (if truthy (aspectRatio s) then aspectRatio s
      else if truthy (js_div (width s) (height s)) then js_div (width s) (height s)
      else literal (177 / 100))"

text \<open>The sum of the components for an effective frame rate \<open>f\<close>, clamped to \<open>[1, 10]\<close>.\<close>

definition clampedTotal :: "jsval \<Rightarrow> settings \<Rightarrow> rat" where
  "clampedTotal f s =
     max 1 (min 10
       (resolutionComponent (height s) + frameRateComponent f + aspectComponent (defaultedRatio s)
        + (if premium (height s) f then 1 else 0)))"

text \<open>The entries that each group of branches can append to \<^verbatim>\<open>details\<close>.\<close>

definition resolutionEntries :: "string list" where
  "resolutionEntries = [''High Definition (1080p+)'', ''Standard HD (720p)'',
     ''Standard Definition (480p)'', ''Low Resolution'']"

definition frameRateEntries :: "string list" where
  "frameRateEntries = [''Smooth Motion (60fps)'', ''Standard Motion (30fps)'', ''Low Frame Rate'']"

definition aspectEntries :: "string list" where
  "aspectEntries = [''Widescreen (16:9)'', ''Standard Aspect Ratio'']"

text \<open>How many elements of a details list belong to a given group.\<close>

definition count_in :: "string list \<Rightarrow> string list \<Rightarrow> nat" where
  "count_in names ds = length (filter (\<lambda>d. d \<in> set names) ds)"

section \<open>Properties of the rounding\<close>

text \<open>
  The exponent found from the bit lengths is the binary exponent, a finite result of the
  rounding lies within half a spacing of the rational, a magnitude of \<open>2 ^ 1024\<close> or
  more gives an infinity and one below \<open>2 ^ -1075\<close> gives a zero.
\<close>

lemma pow2_powi: "pow2 e = 2 powi e"
  by (simp add: pow2_def power_int_def field_simps)

lemma pow2_pos: "0 < pow2 e"
  by (simp add: pow2_powi)

lemma pow2_add: "pow2 (a + b) = pow2 a * pow2 b"
  by (simp add: pow2_powi power_int_add)

lemma bitlen_pow2_bounds:
  assumes "0 < (x::int)"
  shows "pow2 (bitlen x - 1) \<le> of_int x" and "of_int x < pow2 (bitlen x)"
proof -
  from assms have b: "1 \<le> bitlen x"
    by (simp add: bitlen_alt_def)
  from bitlen_bounds [OF assms] have lo: "2 ^ nat (bitlen x - 1) \<le> x" and hi: "x < 2 ^ nat (bitlen x)"
    by simp_all
  from lo have "(of_int (2 ^ nat (bitlen x - 1)) :: rat) \<le> of_int x"
    by (simp only: of_int_le_iff)
  with b show "pow2 (bitlen x - 1) \<le> of_int x"
    by (simp add: pow2_def)
  from hi have "(of_int x :: rat) < of_int (2 ^ nat (bitlen x))"
    by (simp only: of_int_less_iff)
  with b show "of_int x < pow2 (bitlen x)"
    by (simp add: pow2_def)
qed

lemma ilog2_bounds:
  assumes "0 < a"
  shows "pow2 (ilog2 a) \<le> a \<and> a < pow2 (ilog2 a + 1)"
proof -
  obtain p d where q: "quotient_of a = (p, d)"
    by (cases "quotient_of a")
  then have d: "0 < d" and a: "a = of_int p / of_int d"
    by (simp_all add: quotient_of_denom_pos quotient_of_div)
  with assms have p: "0 < p"
    by (simp add: zero_less_divide_iff)
  define k where "k = bitlen p - bitlen d"
  have D: "0 < (of_int d :: rat)" using d by simp
  have "pow2 (bitlen p - 1) \<le> of_int d * a"
    using bitlen_pow2_bounds(1) [OF p] a D by simp
  moreover have "of_int d < pow2 (bitlen d)"
    by (rule bitlen_pow2_bounds(2) [OF d])
  ultimately have "pow2 (bitlen p - 1) \<le> pow2 (bitlen d) * a"
    using assms by (meson less_eq_rat_def mult_right_mono order_trans)
  moreover have "pow2 (bitlen p - 1) = pow2 (bitlen d) * pow2 (k - 1)"
    unfolding k_def pow2_add [symmetric] by simp
  ultimately have lo: "pow2 (k - 1) \<le> a"
    using pow2_pos [of "bitlen d"] by simp
  have "of_int d * a < pow2 (bitlen p)"
    using bitlen_pow2_bounds(2) [OF p] a D by simp
  moreover have "pow2 (bitlen d - 1) * a \<le> of_int d * a"
    using bitlen_pow2_bounds(1) [OF d] assms by (simp add: mult_right_mono)
  ultimately have "pow2 (bitlen d - 1) * a < pow2 (bitlen p)"
    by simp
  moreover have "pow2 (bitlen p) = pow2 (bitlen d - 1) * pow2 (k + 1)"
    unfolding k_def pow2_add [symmetric] by simp
  ultimately have hi: "a < pow2 (k + 1)"
    using pow2_pos [of "bitlen d - 1"] by simp
  have "ilog2 a = (if pow2 k \<le> a then k else k - 1)"
    by (simp add: ilog2_def q k_def)
  with lo hi show ?thesis
    by (auto simp add: not_le)
qed

lemma round_half_even_near: "\<bar>of_int (round_half_even m) - m\<bar> \<le> 1 / 2"
proof -
  have "of_int \<lfloor>m\<rfloor> \<le> m" and "m < of_int \<lfloor>m\<rfloor> + 1"
    by linarith+
  then show ?thesis
    by (auto simp add: round_half_even_def Let_def)
qed

lemma round_double_near:
  assumes "round_double q = Fin v"
  shows "\<bar>v - q\<bar> \<le> pow2 (max (ilog2 \<bar>q\<bar>) (- 1022) - 52) / 2"
proof (cases "q = 0")
  case True
  with assms show ?thesis
    using pow2_pos [of "max (ilog2 \<bar>q\<bar>) (- 1022) - 52"] by (simp add: round_double_def)
next
  case False
  define ulp where "ulp = pow2 (max (ilog2 \<bar>q\<bar>) (- 1022) - 52)"
  define n where "n = round_half_even (\<bar>q\<bar> / ulp)"
  have u: "0 < ulp"
    by (simp add: ulp_def pow2_pos)
  have "\<bar>of_int n - \<bar>q\<bar> / ulp\<bar> \<le> 1 / 2"
    unfolding n_def by (rule round_half_even_near)
  then have "\<bar>of_int n - \<bar>q\<bar> / ulp\<bar> * ulp \<le> 1 / 2 * ulp"
    using u by (simp only: mult_le_cancel_right_pos)
  moreover have "\<bar>of_int n - \<bar>q\<bar> / ulp\<bar> * ulp = \<bar>of_int n * ulp - \<bar>q\<bar>\<bar>"
  proof -
    have "\<bar>of_int n - \<bar>q\<bar> / ulp\<bar> * ulp = \<bar>(of_int n - \<bar>q\<bar> / ulp) * ulp\<bar>"
      using u by (simp add: abs_mult)
    also have "(of_int n - \<bar>q\<bar> / ulp) * ulp = of_int n * ulp - \<bar>q\<bar>"
      using u by (simp add: left_diff_distrib)
    finally show ?thesis .
  qed
  ultimately have near: "\<bar>of_int n * ulp - \<bar>q\<bar>\<bar> \<le> ulp / 2"
    by simp
  have "round_double q =
      (if 1023 < ilog2 \<bar>q\<bar> then signed_inf (q < 0)
       else if max (ilog2 \<bar>q\<bar>) (- 1022) = 1023 \<and> 2 ^ 53 \<le> n then signed_inf (q < 0)
       else if n = 0 then signed_zero (q < 0)
       else Fin (if q < 0 then - (of_int n * ulp) else of_int n * ulp))"
    by (simp only: round_double_def Let_def n_def ulp_def False if_False)
  with assms have "v = (if q < 0 then - (of_int n * ulp) else of_int n * ulp)"
    by (auto simp add: signed_inf_def signed_zero_def split: if_splits)
  with near show ?thesis
    unfolding ulp_def [symmetric] by (cases "q < 0") (simp_all add: abs_if split: if_splits)
qed

lemma pow2_mono: "x \<le> y \<Longrightarrow> pow2 x \<le> pow2 y"
  by (simp add: pow2_powi power_int_increasing)

lemma pow2_less_imp_less: "pow2 x < pow2 y \<Longrightarrow> x < y"
  using pow2_mono [of y x] by (cases "y \<le> x") simp_all

lemma ilog2_unique:
  assumes "pow2 e \<le> a" and "a < pow2 (e + 1)"
  shows "ilog2 a = e"
proof -
  have "0 < a"
    using pow2_pos [of e] assms(1) by linarith
  then have b: "pow2 (ilog2 a) \<le> a" "a < pow2 (ilog2 a + 1)"
    using ilog2_bounds by simp_all
  from assms(1) b(2) have "pow2 e < pow2 (ilog2 a + 1)"
    by linarith
  then have "e < ilog2 a + 1"
    by (rule pow2_less_imp_less)
  moreover from b(1) assms(2) have "pow2 (ilog2 a) < pow2 (e + 1)"
    by linarith
  then have "ilog2 a < e + 1"
    by (rule pow2_less_imp_less)
  ultimately show ?thesis
    by simp
qed

lemma round_double_overflow:
  assumes "pow2 1024 \<le> \<bar>q\<bar>"
  shows "round_double q = signed_inf (q < 0)"
proof -
  have pos: "0 < \<bar>q\<bar>"
    using pow2_pos [of 1024] assms by linarith
  then have "\<bar>q\<bar> < pow2 (ilog2 \<bar>q\<bar> + 1)"
    using ilog2_bounds by simp
  with assms have "pow2 1024 < pow2 (ilog2 \<bar>q\<bar> + 1)"
    by linarith
  then have "1023 < ilog2 \<bar>q\<bar>"
    using pow2_less_imp_less by fastforce
  with pos show ?thesis
    by (simp add: round_double_def)
qed

lemma round_double_underflow:
  assumes "q \<noteq> 0" and "\<bar>q\<bar> < pow2 (- 1075)"
  shows "round_double q = signed_zero (q < 0)"
proof -
  have pos: "0 < \<bar>q\<bar>"
    using assms(1) by simp
  then have "pow2 (ilog2 \<bar>q\<bar>) \<le> \<bar>q\<bar>"
    using ilog2_bounds by simp
  with assms(2) have "pow2 (ilog2 \<bar>q\<bar>) < pow2 (- 1075)"
    by linarith
  then have i: "ilog2 \<bar>q\<bar> < - 1075"
    by (rule pow2_less_imp_less)
  then have e: "max (ilog2 \<bar>q\<bar>) (- 1022) = - 1022"
    by simp
  have "pow2 (- 1074) = pow2 (- 1075) * 2"
    using pow2_add [of "- 1075" 1] by (simp add: pow2_def)
  define m where "m = \<bar>q\<bar> / pow2 (- 1074)"
  have m: "0 < m" "m < 1 / 2"
    unfolding m_def using assms(2) pos pow2_pos [of "- 1075"]
      \<open>pow2 (- 1074) = pow2 (- 1075) * 2\<close>
    by (simp_all add: field_simps)
  then have "\<lfloor>m\<rfloor> = 0"
    by (simp add: floor_eq_iff)
  with m have "round_half_even m = 0"
    by (simp add: round_half_even_def)
  with assms(1) i e show ?thesis
    by (simp add: round_double_def m_def)
qed

lemma underflow_example: "num_div (Fin (pow2 (- 1074))) (Fin 4) = Fin 0"
proof -
  have "pow2 (- 1074) = pow2 (- 1076) * 4"
    using pow2_add [of "- 1076" 2] by (simp add: pow2_def)
  then have q: "pow2 (- 1074) / 4 = pow2 (- 1076)"
    by simp
  have "pow2 (- 1075) = pow2 (- 1076) * 2"
    using pow2_add [of "- 1076" 1] by (simp add: pow2_def)
  then have "\<bar>pow2 (- 1076)\<bar> < pow2 (- 1075)"
    using pow2_pos [of "- 1076"] by simp
  then have "round_double (pow2 (- 1076)) = Fin 0"
    using round_double_underflow [of "pow2 (- 1076)"] pow2_pos [of "- 1076"]
    by (simp add: signed_zero_def)
  with q show ?thesis
    using pow2_pos [of "- 1074"] by (simp add: num_div_def)
qed

lemma overflow_example: "num_div (Fin (pow2 1000)) (Fin (pow2 (- 100))) = PosInf"
proof -
  have "pow2 1000 = pow2 1100 * pow2 (- 100)"
    using pow2_add [of 1100 "- 100"] by simp
  then have q: "pow2 1000 / pow2 (- 100) = pow2 1100"
    using pow2_pos [of "- 100"] by simp
  have "pow2 1024 \<le> \<bar>pow2 1100\<bar>"
    using pow2_mono [of 1024 1100] pow2_pos [of 1100] by simp
  then have "round_double (pow2 1100) = PosInf"
    using round_double_overflow [of "pow2 1100"] pow2_pos [of 1100]
    by (simp add: signed_inf_def)
  with q show ?thesis
    using pow2_pos [of 1000] pow2_pos [of "- 100"] by (simp add: num_div_def)
qed

text \<open>
  Where rounding decides the branch: the double for 1937.2 divided by 1160 rounds to the
  double for 1.67, whose distance from the double for 1.77 is just above the double for
  0.1, so the ratio is not widescreen; the exact quotient would be just inside.
\<close>

lemma example_rounded_quotient:
  "literal (19372 / 10) = lit (8519895701310669 / 4398046511104)
   \<and> js_div (literal (19372 / 10)) (lit 1160) = lit (940126422213591 / 562949953421312)
   \<and> calculateCameraScore
       \<lparr>width = literal (19372 / 10), height = lit 1160, frameRate = lit 30, aspectRatio = Undefined\<rparr>
     = \<lparr>score = ''8.5'', label = ''Good'',
        details = [''High Definition (1080p+)'', ''Standard Motion (30fps)'',
                   ''Standard Aspect Ratio'', ''Premium Quality Bonus'']\<rparr>"
  by code_simp

section \<open>How the function decomposes\<close>

lemma js_ge_resolution:
  assumes "0 < c"
  shows "js_ge (js_or h (lit 0)) (lit c) = js_ge h (lit c)"
proof (cases h)
  case (Num n)
  with assms show ?thesis
    by (cases n) (simp_all add: js_or_def js_ge_def num_ge_def)
qed (use assms in \<open>simp_all add: js_or_def js_ge_def num_ge_def\<close>)

lemma resolutionStep_eq:
  "resolutionStep (resolution_of s) (sc, ds) =
     (sc + resolutionComponent (height s), ds @ [resolutionEntry (height s)])"
  by (simp add: resolutionStep_def resolution_of_def js_ge_resolution
      resolutionComponent_def resolutionEntry_def)

lemma frameRateStep_eq:
  "frameRateStep f (sc, ds) = (sc + frameRateComponent f, ds @ [frameRateEntry f])"
  by (simp add: frameRateStep_def frameRateComponent_def frameRateEntry_def)

lemma ratioStep_eq:
  "ratioStep r (sc, ds) = (sc + aspectComponent r, ds @ [aspectEntry r])"
  by (simp add: ratioStep_def aspectComponent_def aspectEntry_def widescreen_def)

lemma bonusStep_eq:
  "bonusStep (resolution_of s) f (sc, ds) =
     (if premium (height s) f then (sc + 1, ds @ [''Premium Quality Bonus'']) else (sc, ds))"
  by (simp add: bonusStep_def resolution_of_def js_ge_resolution premium_def)

lemma beforeBonus_eq:
  "beforeBonus s =
     (resolutionComponent (height s) + frameRateComponent (fps_of s) + aspectComponent (ratio_of s),
      [resolutionEntry (height s), frameRateEntry (fps_of s), aspectEntry (ratio_of s)])"
  by (simp add: beforeBonus_def resolutionStep_eq frameRateStep_eq ratioStep_eq)

lemma beforeCap_eq:
  "beforeCap s =
     (if premium (height s) (fps_of s)
      then (fst (beforeBonus s) + 1, snd (beforeBonus s) @ [''Premium Quality Bonus''])
      else beforeBonus s)"
  by (simp add: beforeCap_def beforeBonus_eq bonusStep_eq)

lemma result_eq:
  "calculateCameraScore s =
     \<lparr>score = toFixed 1 (finalScore s), label = labelOf (finalScore s),
      details = snd (beforeCap s)\<rparr>"
  by (simp add: calculateCameraScore_def finalScore_def split_beta Let_def)

lemma component_bounds:
  "1 \<le> resolutionComponent h" "resolutionComponent h \<le> 5"
  "1 \<le> frameRateComponent f" "frameRateComponent f \<le> 3"
  "1 / 2 \<le> aspectComponent r" "aspectComponent r \<le> 1"
  by (simp_all add: resolutionComponent_def frameRateComponent_def aspectComponent_def)

lemma fps_of_eq: "fps_of s = effectiveFrameRate (frameRate s)"
  by (simp add: fps_of_def js_or_def effectiveFrameRate_def)

lemma ratio_of_eq: "ratio_of s = defaultedRatio s"
  by (simp add: ratio_of_def js_or_def defaultedRatio_def)

lemma finalScore_eq: "finalScore s = clampedTotal (fps_of s) s"
  by (simp add: finalScore_def floorScore_def capScore_def clampedTotal_def
      beforeCap_eq beforeBonus_eq ratio_of_eq)

lemma finalScore_bounds: "1 \<le> finalScore s" "finalScore s \<le> 10"
  by (simp_all add: finalScore_def floorScore_def capScore_def)

lemma beforeCap_lower: "5 / 2 \<le> fst (beforeCap s)"
proof -
  have "5 / 2 \<le> fst (beforeBonus s)"
    using component_bounds(1) [of "height s"] component_bounds(3) [of "fps_of s"]
      component_bounds(5) [of "ratio_of s"]
    by (simp add: beforeBonus_eq)
  then show ?thesis
    by (simp add: beforeCap_eq)
qed

lemma finalScore_values:
  "finalScore s \<in> {5 / 2, 3, 7 / 2, 4, 9 / 2, 5, 11 / 2, 6, 13 / 2, 7, 15 / 2, 17 / 2, 9, 19 / 2, 10}"
  by (simp add: finalScore_def floorScore_def capScore_def beforeCap_eq beforeBonus_eq
      resolutionComponent_def frameRateComponent_def aspectComponent_def premium_def)

lemma round_double_zero: "round_double 0 = Fin 0"
  by (simp add: round_double_def)

lemma literal_values:
  "literal (177 / 100) = lit (3985685670222889 / 2251799813685248)"
  "literal (1 / 10) = lit (3602879701896397 / 36028797018963968)"
  by code_simp+

lemma ratioStep_default:
  "ratioStep (literal (177 / 100)) (sc, ds) = (sc + 1, ds @ [''Widescreen (16:9)''])"
  by (simp add: ratioStep_def js_lt_def Math_abs_def js_sub_def num_sub_def literal_values
      round_double_zero)

lemma ratioStep_infinite:
  "is_inf n \<Longrightarrow> ratioStep (Num n) (sc, ds) = (sc + 1 / 2, ds @ [''Standard Aspect Ratio''])"
  by (cases n)
    (simp_all add: ratioStep_def js_lt_def Math_abs_def js_sub_def num_sub_def literal_values)

lemma div_by_zero:
  "num_div a (Fin 0) = (if a = NaN \<or> is_zero a then NaN else signed_inf (negative a))"
  by (cases a) (simp_all add: num_div_def)

lemma js_ge_truthy: "0 < c \<Longrightarrow> js_ge v (lit c) \<Longrightarrow> truthy v"
proof (cases v)
  case (Num n)
  assume "0 < c" "js_ge v (lit c)"
  with Num show ?thesis
    by (cases n) (auto simp add: js_ge_def num_ge_def)
qed (simp_all add: js_ge_def num_ge_def)

lemma entries_member:
  "resolutionEntry h \<in> set resolutionEntries"
  "frameRateEntry f \<in> set frameRateEntries"
  "aspectEntry r \<in> set aspectEntries"
  by (simp_all add: resolutionEntry_def resolutionEntries_def frameRateEntry_def
      frameRateEntries_def aspectEntry_def aspectEntries_def)

lemma details_eq:
  "details (calculateCameraScore s) =
     [resolutionEntry (height s), frameRateEntry (fps_of s), aspectEntry (ratio_of s)]
     @ (if premium (height s) (fps_of s) then [''Premium Quality Bonus''] else [])"
  by (simp add: result_eq beforeCap_eq beforeBonus_eq)

lemma count_resolution:
  "count_in resolutionEntries ([resolutionEntry h, frameRateEntry f, aspectEntry r] @ bs) 
    = 1 + count_in resolutionEntries bs"
  by (simp add: count_in_def resolutionEntries_def resolutionEntry_def frameRateEntry_def aspectEntry_def)

lemma count_frameRate:
  "count_in frameRateEntries ([resolutionEntry h, frameRateEntry f, aspectEntry r] @ bs) 
    = 1 + count_in frameRateEntries bs"
  by (simp add: count_in_def frameRateEntries_def resolutionEntry_def frameRateEntry_def aspectEntry_def)

lemma count_aspect:
  "count_in aspectEntries ([resolutionEntry h, frameRateEntry f, aspectEntry r] @ bs) 
    = 1 + count_in aspectEntries bs"
  by (simp add: count_in_def aspectEntries_def resolutionEntry_def frameRateEntry_def aspectEntry_def)

lemma count_bonus:
  "count_in resolutionEntries [''Premium Quality Bonus''] = 0"
  "count_in frameRateEntries [''Premium Quality Bonus''] = 0"
  "count_in aspectEntries [''Premium Quality Bonus''] = 0"
  "count_in ns [] = 0"
  by (simp_all add: count_in_def resolutionEntries_def frameRateEntries_def aspectEntries_def)

lemma toFixed_values:
  "toFixed 1 (5 / 2) = ''2.5''" "toFixed 1 3 = ''3.0''" "toFixed 1 (7 / 2) = ''3.5''"
  "toFixed 1 4 = ''4.0''" "toFixed 1 (9 / 2) = ''4.5''" "toFixed 1 5 = ''5.0''"
  "toFixed 1 (11 / 2) = ''5.5''" "toFixed 1 6 = ''6.0''" "toFixed 1 (13 / 2) = ''6.5''"
  "toFixed 1 7 = ''7.0''" "toFixed 1 (15 / 2) = ''7.5''" "toFixed 1 (17 / 2) = ''8.5''"
  "toFixed 1 9 = ''9.0''" "toFixed 1 (19 / 2) = ''9.5''" "toFixed 1 10 = ''10.0''"
  by code_simp+

section \<open>The score as a sum of components\<close>

text \<open>
  C1: for every settings record, with any of its four fields absent, the returned score is
  the sum of a resolution component (1, 2, 3.5 or 5 by comparing the height against 480,
  720 and 1080), a frame-rate component (1, 2 or 3 by comparing the frame rate against 28
  and 58, the frame rate defaulting to 30 when not reported), an aspect-ratio component (1
  when \<open>|ratio - 1.77| < 0.1\<close>, else 0.5, the ratio being the aspect ratio, else width over
  height, else 1.77) and a bonus of 1 exactly when the height is at least 1080 and the
  effective frame rate at least 28; the sum is clamped to \<open>[1, 10]\<close> and formatted with
  one decimal. The difference and the comparison are those of the doubles.
\<close>

theorem score_is_clamped_component_sum:
  "score (calculateCameraScore s) = toFixed 1 (clampedTotal (effectiveFrameRate (frameRate s)) s)"
  by (simp add: result_eq finalScore_eq fps_of_eq)

section \<open>Range of the score\<close>

text \<open>
  C2: for every settings record, whatever its fields (zero, negative, infinite, NaN, null
  or absent), the returned score is the one-decimal rendering of a number between 1 and 10
  inclusive.
\<close>

theorem score_within_bounds:
  "score (calculateCameraScore s) = toFixed 1 (finalScore s)
   \<and> 1 \<le> finalScore s \<and> finalScore s \<le> 10"
  by (simp add: result_eq finalScore_bounds)

section \<open>Worked examples\<close>

text \<open>
  C3, as stated: for 640 by 480 at 30 frames per second the label is "Average". The total
  is 4.5, which is below 5, so the label is not "Average".
\<close>

theorem example_vga_label_counterexample:
  "label (calculateCameraScore
     \<lparr>width = lit 640, height = lit 480, frameRate = lit 30, aspectRatio = Undefined\<rparr>)
   \<noteq> ''Average''"
  by code_simp

text \<open>
  C3, amended: for 640 by 480 at 30 frames per second the resolution component is 2, the
  frame-rate component is 2, the ratio is the double nearest to 4/3 (1.33...) and its
  component 0.5; the total is 4.5, the
  returned score is "4.5" and the label is "Fair".
\<close>

theorem example_vga:
  "resolutionStep (resolution_of
       \<lparr>width = lit 640, height = lit 480, frameRate = lit 30, aspectRatio = Undefined\<rparr>) (0, [])
     = (2, [''Standard Definition (480p)''])
   \<and> frameRateStep (fps_of
       \<lparr>width = lit 640, height = lit 480, frameRate = lit 30, aspectRatio = Undefined\<rparr>) (0, [])
     = (2, [''Standard Motion (30fps)''])
   \<and> ratio_of \<lparr>width = lit 640, height = lit 480, frameRate = lit 30, aspectRatio = Undefined\<rparr>
     = lit (6004799503160661 / 4503599627370496)
   \<and> ratioStep (lit (6004799503160661 / 4503599627370496)) (0, [])
     = (1 / 2, [''Standard Aspect Ratio''])
   \<and> finalScore \<lparr>width = lit 640, height = lit 480, frameRate = lit 30, aspectRatio = Undefined\<rparr>
     = 9 / 2
   \<and> calculateCameraScore
       \<lparr>width = lit 640, height = lit 480, frameRate = lit 30, aspectRatio = Undefined\<rparr>
     = \<lparr>score = ''4.5'', label = ''Fair'',
        details = [''Standard Definition (480p)'', ''Standard Motion (30fps)'',
                   ''Standard Aspect Ratio'']\<rparr>"
  by code_simp

text \<open>
  C5: for a record with only height 0 and frame rate 0, the frame rate defaults to 30 and
  scores 2 points, the resolution is "Low Resolution" with 1 point, the quotient of the
  absent width and the zero height is NaN, and the ratio falls back to 1.77.
\<close>

theorem example_zero_height_zero_rate:
  "fps_of \<lparr>width = Undefined, height = lit 0, frameRate = lit 0, aspectRatio = Undefined\<rparr> = lit 30
   \<and> frameRateStep (lit 30) (0, []) = (2, [''Standard Motion (30fps)''])
   \<and> resolutionStep (resolution_of
       \<lparr>width = Undefined, height = lit 0, frameRate = lit 0, aspectRatio = Undefined\<rparr>) (0, [])
     = (1, [''Low Resolution''])
   \<and> js_div Undefined (lit 0) = Num NaN
   \<and> ratio_of \<lparr>width = Undefined, height = lit 0, frameRate = lit 0, aspectRatio = Undefined\<rparr>
     = literal (177 / 100)
   \<and> calculateCameraScore
       \<lparr>width = Undefined, height = lit 0, frameRate = lit 0, aspectRatio = Undefined\<rparr>
     = \<lparr>score = ''4.0'', label = ''Fair'',
        details = [''Low Resolution'', ''Standard Motion (30fps)'', ''Widescreen (16:9)'']\<rparr>"
  by code_simp

text \<open>
  C8: for 1920 by 1080 at 60 frames per second with aspect ratio 1.777 the returned score
  is "10.0" and the label is "Excellent", both for the double that the literal 1.777
  denotes and for the decimal fraction itself.
\<close>

theorem example_full_hd_60:
  "calculateCameraScore
     \<lparr>width = lit 1920, height = lit 1080, frameRate = lit 60, aspectRatio = literal (1777 / 1000)\<rparr>
   = \<lparr>score = ''10.0'', label = ''Excellent'',
      details = [''High Definition (1080p+)'', ''Smooth Motion (60fps)'', ''Widescreen (16:9)'',
                 ''Premium Quality Bonus'']\<rparr>
   \<and> calculateCameraScore
     \<lparr>width = lit 1920, height = lit 1080, frameRate = lit 60, aspectRatio = lit (1777 / 1000)\<rparr>
   = \<lparr>score = ''10.0'', label = ''Excellent'',
      details = [''High Definition (1080p+)'', ''Smooth Motion (60fps)'', ''Widescreen (16:9)'',
                 ''Premium Quality Bonus'']\<rparr>"
  by code_simp

section \<open>A zero height\<close>

text \<open>
  C4, as stated: with the aspect ratio absent and the height 0, the quotient is NaN, NaN
  passes the falsy check, and the aspect-ratio component is always 0.5. NaN is falsy, so
  for an absent width the ratio is 1.77 and the component is 1 ("Widescreen (16:9)").
\<close>

theorem zero_height_ratio_counterexample:
  "aspectRatio \<lparr>width = Undefined, height = lit 0, frameRate = Undefined, aspectRatio = Undefined\<rparr>
     = Undefined
   \<and> height \<lparr>width = Undefined, height = lit 0, frameRate = Undefined, aspectRatio = Undefined\<rparr>
     = lit 0
   \<and> \<not> truthy (Num NaN)
   \<and> ratio_of \<lparr>width = Undefined, height = lit 0, frameRate = Undefined, aspectRatio = Undefined\<rparr>
     = literal (177 / 100)
   \<and> ratioStep (ratio_of
        \<lparr>width = Undefined, height = lit 0, frameRate = Undefined, aspectRatio = Undefined\<rparr>) (0, [])
     = (1, [''Widescreen (16:9)''])
   \<and> ratioStep (ratio_of
        \<lparr>width = Undefined, height = lit 0, frameRate = Undefined, aspectRatio = Undefined\<rparr>) (0, [])
     \<noteq> (1 / 2, [''Standard Aspect Ratio''])"
  by code_simp

text \<open>
  C4, amended: for every settings record with the aspect ratio absent and the height 0,
  if the width is absent, null, zero or NaN then the quotient is NaN, which is falsy, the
  ratio is the default 1.77 and the component is 1 ("Widescreen (16:9)"); for every other
  width the quotient is an infinity with the sign of the width, the ratio is that
  infinity, the comparison fails and the component is 0.5 ("Standard Aspect Ratio").
\<close>

theorem zero_height_ratio:
  assumes "aspectRatio s = Undefined" and "height s = lit 0"
  shows "if toNumber (width s) = NaN \<or> is_zero (toNumber (width s))
         then js_div (width s) (height s) = Num NaN
              \<and> ratio_of s = literal (177 / 100)
              \<and> ratioStep (ratio_of s) (sc, ds) = (sc + 1, ds @ [''Widescreen (16:9)''])
         else js_div (width s) (height s) = Num (signed_inf (negative (toNumber (width s))))
              \<and> ratio_of s = js_div (width s) (height s)
              \<and> ratioStep (ratio_of s) (sc, ds) = (sc + 1 / 2, ds @ [''Standard Aspect Ratio''])"
proof (cases "toNumber (width s) = NaN \<or> is_zero (toNumber (width s))")
  case True
  then have q: "js_div (width s) (height s) = Num NaN"
    using assms(2) by (auto simp add: js_div_def div_by_zero)
  then have "ratio_of s = literal (177 / 100)"
    using assms(1) by (simp add: ratio_of_def js_or_def)
  with q True show ?thesis
    by (simp add: ratioStep_default)
next
  case False
  then have q: "js_div (width s) (height s) = Num (signed_inf (negative (toNumber (width s))))"
    using assms(2) by (simp add: js_div_def div_by_zero)
  then have r: "ratio_of s = js_div (width s) (height s)"
    using assms(1) by (simp add: ratio_of_def js_or_def signed_inf_def)
  have "is_inf (signed_inf (negative (toNumber (width s))))"
    by (simp add: signed_inf_def)
  with q r False show ?thesis
    by (simp add: ratioStep_infinite)
qed

text \<open>The two cases of C4 at an absent width and at a width of 640.\<close>

theorem zero_height_ratio_witness:
  "ratioStep (ratio_of \<lparr>width = Undefined, height = lit 0, frameRate = lit 30, aspectRatio = Undefined\<rparr>)
      (3, [''Low Resolution'', ''Standard Motion (30fps)''])
     = (4, [''Low Resolution'', ''Standard Motion (30fps)'', ''Widescreen (16:9)''])
   \<and> js_div (lit 640) (lit 0) = Num PosInf
   \<and> ratioStep (ratio_of \<lparr>width = lit 640, height = lit 0, frameRate = lit 30, aspectRatio = Undefined\<rparr>)
      (3, [''Low Resolution'', ''Standard Motion (30fps)''])
     = (7 / 2, [''Low Resolution'', ''Standard Motion (30fps)'', ''Standard Aspect Ratio''])"
  using zero_height_ratio [of "\<lparr>width = Undefined, height = lit 0, frameRate = lit 30, aspectRatio = Undefined\<rparr>"
      3 "[''Low Resolution'', ''Standard Motion (30fps)'']"]
    zero_height_ratio [of "\<lparr>width = lit 640, height = lit 0, frameRate = lit 30, aspectRatio = Undefined\<rparr>"
      3 "[''Low Resolution'', ''Standard Motion (30fps)'']"]
  by (auto simp add: signed_inf_def)

section \<open>Labels\<close>

text \<open>
  C6: for every input, the label is "Excellent" when the clamped score is at least 9,
  "Good" when at least 7, "Average" when at least 5, "Fair" when at least 3 and "Poor"
  otherwise; the clamped score is the number the returned score string renders.
\<close>

theorem label_thresholds:
  "(9 \<le> finalScore s \<longrightarrow> label (calculateCameraScore s) = ''Excellent'')
   \<and> (7 \<le> finalScore s \<and> finalScore s < 9 \<longrightarrow> label (calculateCameraScore s) = ''Good'')
   \<and> (5 \<le> finalScore s \<and> finalScore s < 7 \<longrightarrow> label (calculateCameraScore s) = ''Average'')
   \<and> (3 \<le> finalScore s \<and> finalScore s < 5 \<longrightarrow> label (calculateCameraScore s) = ''Fair'')
   \<and> (finalScore s < 3 \<longrightarrow> label (calculateCameraScore s) = ''Poor'')
   \<and> score (calculateCameraScore s) = toFixed 1 (finalScore s)"
  by (simp add: result_eq labelOf_def)

text \<open>
  The thresholds of C6 at inputs whose scores are exactly 9, 7, 5 and 3, which take the
  higher label, and at the lowest score 2.5.
\<close>

theorem label_thresholds_witness:
  "finalScore \<lparr>width = lit 1920, height = lit 1080, frameRate = lit 30, aspectRatio = Undefined\<rparr> = 9
   \<and> label (calculateCameraScore
        \<lparr>width = lit 1920, height = lit 1080, frameRate = lit 30, aspectRatio = Undefined\<rparr>)
      = ''Excellent''
   \<and> finalScore \<lparr>width = lit 1920, height = lit 1080, frameRate = lit 15, aspectRatio = Undefined\<rparr> = 7
   \<and> label (calculateCameraScore
        \<lparr>width = lit 1920, height = lit 1080, frameRate = lit 15, aspectRatio = Undefined\<rparr>)
      = ''Good''
   \<and> finalScore \<lparr>width = lit 960, height = lit 720, frameRate = lit 15, aspectRatio = Undefined\<rparr> = 5
   \<and> label (calculateCameraScore
        \<lparr>width = lit 960, height = lit 720, frameRate = lit 15, aspectRatio = Undefined\<rparr>)
      = ''Average''
   \<and> finalScore \<lparr>width = lit 320, height = lit 180, frameRate = lit 15, aspectRatio = Undefined\<rparr> = 3
   \<and> label (calculateCameraScore
        \<lparr>width = lit 320, height = lit 180, frameRate = lit 15, aspectRatio = Undefined\<rparr>)
      = ''Fair''
   \<and> finalScore \<lparr>width = lit 320, height = lit 240, frameRate = lit 15, aspectRatio = Undefined\<rparr> = 5 / 2
   \<and> label (calculateCameraScore
        \<lparr>width = lit 320, height = lit 240, frameRate = lit 15, aspectRatio = Undefined\<rparr>)
      = ''Poor''"
proof -
  let ?a = "\<lparr>width = lit 1920, height = lit 1080, frameRate = lit 30, aspectRatio = Undefined\<rparr>"
  let ?b = "\<lparr>width = lit 1920, height = lit 1080, frameRate = lit 15, aspectRatio = Undefined\<rparr>"
  let ?c = "\<lparr>width = lit 960, height = lit 720, frameRate = lit 15, aspectRatio = Undefined\<rparr>"
  let ?d = "\<lparr>width = lit 320, height = lit 180, frameRate = lit 15, aspectRatio = Undefined\<rparr>"
  let ?e = "\<lparr>width = lit 320, height = lit 240, frameRate = lit 15, aspectRatio = Undefined\<rparr>"
  have a: "finalScore ?a = 9" by code_simp
  have b: "finalScore ?b = 7" by code_simp
  have c: "finalScore ?c = 5" by code_simp
  have d: "finalScore ?d = 3" by code_simp
  have e: "finalScore ?e = 5 / 2" by code_simp
  from a label_thresholds [of ?a] have "label (calculateCameraScore ?a) = ''Excellent''" by simp
  moreover from b label_thresholds [of ?b] have "label (calculateCameraScore ?b) = ''Good''" by simp
  moreover from c label_thresholds [of ?c] have "label (calculateCameraScore ?c) = ''Average''" by simp
  moreover from d label_thresholds [of ?d] have "label (calculateCameraScore ?d) = ''Fair''" by simp
  moreover from e label_thresholds [of ?e] have "label (calculateCameraScore ?e) = ''Poor''" by simp
  ultimately show ?thesis using a b c d e by simp
qed

section \<open>The bonus\<close>

text \<open>
  C7: for every settings record with height at least 1080 and frame rate at least 28, one
  point and the entry "Premium Quality Bonus" are added to what the three components
  gave, and the final score is that sum capped at 10.
\<close>

theorem premium_bonus:
  assumes "js_ge (height s) (lit 1080)" and "js_ge (frameRate s) (lit 28)"
  shows "beforeCap s = (fst (beforeBonus s) + 1, snd (beforeBonus s) @ [''Premium Quality Bonus''])
         \<and> details (calculateCameraScore s) = snd (beforeBonus s) @ [''Premium Quality Bonus'']
         \<and> finalScore s = min 10 (fst (beforeBonus s) + 1)
         \<and> finalScore s \<le> 10
         \<and> score (calculateCameraScore s) = toFixed 1 (finalScore s)"
proof -
  from assms(2) have "truthy (frameRate s)"
    by (rule js_ge_truthy [rotated]) simp
  then have "fps_of s = frameRate s"
    by (simp add: fps_of_def js_or_def)
  with assms have p: "premium (height s) (fps_of s)"
    by (simp add: premium_def)
  then have bc: "beforeCap s = (fst (beforeBonus s) + 1, snd (beforeBonus s) @ [''Premium Quality Bonus''])"
    by (simp add: beforeCap_eq)
  have "1 \<le> fst (beforeCap s)"
    using beforeCap_lower [of s] by simp
  then have "finalScore s = min 10 (fst (beforeBonus s) + 1)"
    by (simp add: finalScore_def floorScore_def capScore_def bc)
  with bc show ?thesis
    by (simp add: result_eq)
qed

text \<open>C7 at 1920 by 1080 with 60 frames per second: 9 before the bonus, 10 after.\<close>

theorem premium_bonus_witness:
  "js_ge (lit 1080) (lit 1080) \<and> js_ge (lit 60) (lit 28)
   \<and> beforeBonus \<lparr>width = lit 1920, height = lit 1080, frameRate = lit 60, aspectRatio = Undefined\<rparr>
     = (9, [''High Definition (1080p+)'', ''Smooth Motion (60fps)'', ''Widescreen (16:9)''])
   \<and> beforeCap \<lparr>width = lit 1920, height = lit 1080, frameRate = lit 60, aspectRatio = Undefined\<rparr>
     = (10, [''High Definition (1080p+)'', ''Smooth Motion (60fps)'', ''Widescreen (16:9)'',
             ''Premium Quality Bonus''])
   \<and> finalScore \<lparr>width = lit 1920, height = lit 1080, frameRate = lit 60, aspectRatio = Undefined\<rparr>
     = 10"
proof -
  let ?s = "\<lparr>width = lit 1920, height = lit 1080, frameRate = lit 60, aspectRatio = Undefined\<rparr>"
  have h: "js_ge (height ?s) (lit 1080)" and f: "js_ge (frameRate ?s) (lit 28)"
    by (simp_all add: js_ge_def num_ge_def)
  have b: "beforeBonus ?s
     = (9, [''High Definition (1080p+)'', ''Smooth Motion (60fps)'', ''Widescreen (16:9)''])"
    by code_simp
  from premium_bonus [OF h f] b h f show ?thesis
    by simp
qed

section \<open>The details list\<close>

text \<open>
  C9: for every settings record, the details list is one resolution entry, then one
  frame-rate entry, then one aspect-ratio entry, followed by "Premium Quality Bonus" if and
  only if the height is at least 1080 and the effective frame rate at least 28; it holds
  exactly one entry of each of the three groups and its length is 4 with the bonus and 3
  without.
\<close>

theorem details_shape:
  "details (calculateCameraScore s) =
     [resolutionEntry (height s), frameRateEntry (fps_of s), aspectEntry (ratio_of s)]
     @ (if js_ge (height s) (lit 1080) \<and> js_ge (fps_of s) (lit 28)
        then [''Premium Quality Bonus''] else [])
   \<and> resolutionEntry (height s) \<in> set resolutionEntries
   \<and> frameRateEntry (fps_of s) \<in> set frameRateEntries
   \<and> aspectEntry (ratio_of s) \<in> set aspectEntries
   \<and> count_in resolutionEntries (details (calculateCameraScore s)) = 1
   \<and> count_in frameRateEntries (details (calculateCameraScore s)) = 1
   \<and> count_in aspectEntries (details (calculateCameraScore s)) = 1
   \<and> length (details (calculateCameraScore s))
      = (if js_ge (height s) (lit 1080) \<and> js_ge (fps_of s) (lit 28) then 4 else 3)"
proof -
  have "count_in resolutionEntries (details (calculateCameraScore s)) = 1"
    unfolding details_eq count_resolution by (simp add: count_bonus)
  moreover have "count_in frameRateEntries (details (calculateCameraScore s)) = 1"
    unfolding details_eq count_frameRate by (simp add: count_bonus)
  moreover have "count_in aspectEntries (details (calculateCameraScore s)) = 1"
    unfolding details_eq count_aspect by (simp add: count_bonus)
  moreover have "details (calculateCameraScore s) =
     [resolutionEntry (height s), frameRateEntry (fps_of s), aspectEntry (ratio_of s)]
     @ (if js_ge (height s) (lit 1080) \<and> js_ge (fps_of s) (lit 28)
        then [''Premium Quality Bonus''] else [])"
    by (simp add: details_eq premium_def)
  moreover have "length (details (calculateCameraScore s))
      = (if js_ge (height s) (lit 1080) \<and> js_ge (fps_of s) (lit 28) then 4 else 3)"
    by (simp add: details_eq premium_def)
  ultimately show ?thesis
    using entries_member by blast
qed

section \<open>The floor of the score\<close>

text \<open>
  C10: for every settings record, the score before clamping is at least 2.5, so
  \<^verbatim>\<open>Math.max(1, score)\<close> leaves the capped score unchanged, and the returned string is
  one of fifteen renderings from "2.5" to "10.0".
\<close>

theorem floor_clamp_idle:
  "5 / 2 \<le> fst (beforeCap s)
   \<and> floorScore (capScore (fst (beforeCap s))) = capScore (fst (beforeCap s))
   \<and> 5 / 2 \<le> finalScore s
   \<and> score (calculateCameraScore s) = toFixed 1 (finalScore s)
   \<and> score (calculateCameraScore s) \<in> set [''2.5'', ''3.0'', ''3.5'', ''4.0'', ''4.5'', ''5.0'',
        ''5.5'', ''6.0'', ''6.5'', ''7.0'', ''7.5'', ''8.5'', ''9.0'', ''9.5'', ''10.0'']"
proof -
  have low: "5 / 2 \<le> fst (beforeCap s)"
    by (rule beforeCap_lower)
  then have idle: "floorScore (capScore (fst (beforeCap s))) = capScore (fst (beforeCap s))"
    by (simp add: floorScore_def capScore_def)
  from low have fs: "5 / 2 \<le> finalScore s"
    by (simp add: finalScore_def floorScore_def capScore_def)
  have "toFixed 1 (finalScore s) \<in> set [''2.5'', ''3.0'', ''3.5'', ''4.0'', ''4.5'', ''5.0'',
        ''5.5'', ''6.0'', ''6.5'', ''7.0'', ''7.5'', ''8.5'', ''9.0'', ''9.5'', ''10.0'']"
    using finalScore_values [of s] unfolding insert_iff empty_iff
    by (elim disjE) (simp_all only: toFixed_values list.set insert_iff simp_thms)
  with low idle fs show ?thesis
    by (simp add: result_eq)
qed

end
